theory Spec2Isabelle
  imports Complex_Main
begin

section \<open>Data model of gisn.py\<close>

text \<open>
  Python floats are modelled as HOL reals: the arithmetic below is exact, and the
  rounding of IEEE doubles is not represented. Every Python exception the modelled code
  can raise is a value of \<open>py_error\<close>; a function that can raise returns
  \<open>py_error + 'a\<close> with \<open>Inl\<close> for the exception.
\<close>

datatype py_error = ValueError | KeyError | ZeroDivisionError

text \<open>
  The class name of an exception, \<^verbatim>\<open>type(e).__name__\<close>. The three are built-in classes
  of Python; the source defines no exception class, and has no \<^verbatim>\<open>raise\<close> and no
  \<^verbatim>\<open>except\<close>.
\<close>

fun exception_name :: "py_error \<Rightarrow> string" where
  "exception_name ValueError = ''ValueError''"
| "exception_name KeyError = ''KeyError''"
| "exception_name ZeroDivisionError = ''ZeroDivisionError''"

datatype Domain =
    GAME_THEORY
  | BEHAVIORAL_PSYCHOLOGY
  | SYSTEMS_THINKING
  | ECONOMICS
  | ETHICS
  | PHYSICS
  | COMPLEXITY_SCIENCE
  | NETWORK_THEORY
  | INFORMATION_THEORY
  | EVOLUTIONARY_BIOLOGY

text \<open>The order in which \<^verbatim>\<open>for dom in Domain\<close> enumerates the members.\<close>

definition Domain_members :: "Domain list" where
  "Domain_members =
     [GAME_THEORY, BEHAVIORAL_PSYCHOLOGY, SYSTEMS_THINKING, ECONOMICS, ETHICS, PHYSICS,
      COMPLEXITY_SCIENCE, NETWORK_THEORY, INFORMATION_THEORY, EVOLUTIONARY_BIOLOGY]"

text \<open>
  The dataclass \<^verbatim>\<open>Decision\<close>. Its first field is \<^verbatim>\<open>context\<close> in the source; the
  name is reserved in Isabelle, hence \<open>context_field\<close>. The values of the
  \<^verbatim>\<open>constraints\<close> dictionary have type \<^verbatim>\<open>Any\<close> and are never inspected: they are
  a type parameter.
\<close>

record 'v Decision =
  context_field :: string
  stakeholders :: "string list"
  options :: "string list"
  constraints :: "(string \<times> 'v) list"
  timeframe :: int
  impact_scale :: string
  uncertainty_level :: real

record DomainAnalysis =
  domain :: Domain
  insights :: "string list"
  predictions :: "(string \<times> real) list"
  confidence :: real
  interaction_effects :: "(Domain \<times> real) list"

text \<open>The three dictionaries with fixed keys that make up the result.\<close>

record Synthesis =
  recommended_option :: string
  option_scores :: "(string \<times> real) list"
  synthesis_confidence :: real

record Protocol =
  implementation_phases :: "(string \<times> string) list list"

record ConfidenceMetrics =
  average_confidence :: real
  synthesis_reliability :: real

record SynthesisResult =
  decision_synthesis :: Synthesis
  coordination_protocol :: Protocol
  confidence_metrics :: ConfidenceMetrics

section \<open>Python dictionaries and built-ins\<close>

text \<open>
  A dictionary is an association list in insertion order with distinct keys.
  \<open>dict_set\<close> is \<^verbatim>\<open>d[k] = v\<close>: an existing key keeps its position, a new key goes
  to the end. \<open>dict_get\<close> is \<^verbatim>\<open>d.get(k, default)\<close>.
\<close>

fun dict_set :: "('k \<times> 'a) list \<Rightarrow> 'k \<Rightarrow> 'a \<Rightarrow> ('k \<times> 'a) list" where
  "dict_set [] k v = [(k, v)]"
| "dict_set ((k', v') # kvs) k v =
     (if k' = k then (k, v) # kvs else (k', v') # dict_set kvs k v)"

definition dict_get :: "('k \<times> 'a) list \<Rightarrow> 'k \<Rightarrow> 'a \<Rightarrow> 'a" where
  "dict_get d k dflt = (case map_of d k of None \<Rightarrow> dflt | Some v \<Rightarrow> v)"

text \<open>
  \<^verbatim>\<open>max(xs, key=f)\<close>: raises ValueError on an empty iterable; otherwise the running
  maximum is replaced only by a strictly greater element, so the first of several
  maximal elements is returned.
\<close>

fun max_loop :: "('a \<Rightarrow> real) \<Rightarrow> 'a \<Rightarrow> 'a list \<Rightarrow> 'a" where
  "max_loop key best [] = best"
| "max_loop key best (x # xs) = max_loop key (if key x > key best then x else best) xs"

definition py_max :: "'a list \<Rightarrow> ('a \<Rightarrow> real) \<Rightarrow> py_error + 'a" where
  "py_max xs key = (case xs of [] \<Rightarrow> Inl ValueError | x # rest \<Rightarrow> Inr (max_loop key x rest))"

text \<open>
  \<^verbatim>\<open>np.mean\<close> and \<^verbatim>\<open>np.std\<close> (default \<^verbatim>\<open>ddof=0\<close>) as numpy documents them: the
  mean is the sum over the number of elements, the standard deviation is the square
  root of the mean of the squared deviations from the mean. On an empty list numpy
  yields nan, which a real cannot represent; the pipeline only applies them to the ten
  confidences of a synthesis.
\<close>

definition np_mean :: "real list \<Rightarrow> real" where
  "np_mean xs = sum_list xs / real (length xs)"

definition np_std :: "real list \<Rightarrow> real" where
  "np_std xs = sqrt (np_mean (map (\<lambda>x. \<bar>x - np_mean xs\<bar> ^ 2) xs))"

section \<open>The store of the mutable weight dictionaries\<close>

text \<open>
  \<^verbatim>\<open>self.domain_weights\<close> is a reference to a dictionary that
  \<^verbatim>\<open>_calculate_context_weights\<close> copies and then mutates; whether the mutation
  reaches the engine's own dictionary depends on the aliasing, so these dictionaries
  live in a store and are addressed by reference.
\<close>

type_synonym wdict = "(Domain \<times> real) list"

record store =
  cells :: "nat \<Rightarrow> wdict"
  next_ref :: nat

definition new_dict :: "store \<Rightarrow> wdict \<Rightarrow> nat \<times> store" where
  "new_dict st d =
     (next_ref st, st\<lparr>cells := (cells st)(next_ref st := d), next_ref := Suc (next_ref st)\<rparr>)"

text \<open>\<^verbatim>\<open>d.copy()\<close>: a new dictionary with the same items.\<close>

definition dict_copy :: "store \<Rightarrow> nat \<Rightarrow> nat \<times> store" where
  "dict_copy st r = new_dict st (cells st r)"

text \<open>\<^verbatim>\<open>w[k] *= c\<close> on the dictionary at reference \<open>r\<close>; a missing key raises KeyError.\<close>

definition dict_imul :: "store \<Rightarrow> nat \<Rightarrow> Domain \<Rightarrow> real \<Rightarrow> (py_error + unit) \<times> store" where
  "dict_imul st r k c =
     (case map_of (cells st r) k of
        None \<Rightarrow> (Inl KeyError, st)
      | Some v \<Rightarrow> (Inr (), st\<lparr>cells := (cells st)(r := dict_set (cells st r) k (v * c))\<rparr>))"

section \<open>UniversalIntelligenceSynthesis\<close>

record UniversalIntelligenceSynthesis =
  domain_weights :: nat
  synthesis_patterns :: "(string \<times> Domain list) list"
  coordination_matrix :: "real list list"

definition initialize_domain_weights :: wdict where
  "initialize_domain_weights =
     [(GAME_THEORY, 0.15),
      (BEHAVIORAL_PSYCHOLOGY, 0.12),
      (SYSTEMS_THINKING, 0.13),
      (ECONOMICS, 0.11),
      (ETHICS, 0.10),
      (PHYSICS, 0.09),
      (COMPLEXITY_SCIENCE, 0.10),
      (NETWORK_THEORY, 0.08),
      (INFORMATION_THEORY, 0.07),
      (EVOLUTIONARY_BIOLOGY, 0.05)]"

definition load_synthesis_patterns :: "(string \<times> Domain list) list" where
  "load_synthesis_patterns =
     [(''coordination_emergence'', [GAME_THEORY, NETWORK_THEORY, BEHAVIORAL_PSYCHOLOGY]),
      (''system_optimization'', [SYSTEMS_THINKING, PHYSICS, COMPLEXITY_SCIENCE]),
      (''ethical_alignment'', [ETHICS, EVOLUTIONARY_BIOLOGY, BEHAVIORAL_PSYCHOLOGY]),
      (''information_flow'', [INFORMATION_THEORY, NETWORK_THEORY, COMPLEXITY_SCIENCE])]"

text \<open>\<^verbatim>\<open>__init__\<close>: the dictionary of base weights is created in the store.\<close>

definition UniversalIntelligenceSynthesis_init :: "store \<Rightarrow> UniversalIntelligenceSynthesis \<times> store" where
  "UniversalIntelligenceSynthesis_init st =
     (let (r, st1) = new_dict st initialize_domain_weights
      in (\<lparr>domain_weights = r,
           synthesis_patterns = load_synthesis_patterns,
           coordination_matrix =
             replicate (length Domain_members) (replicate (length Domain_members) 0)\<rparr>, st1))"

definition game_theory_analysis :: "'v Decision \<Rightarrow> DomainAnalysis" where
  "game_theory_analysis d =
     \<lparr>domain = GAME_THEORY,
      insights = [''Nash equilibrium'', ''Coalition stability''],
      predictions = map (\<lambda>opt. (opt, 1 / real (length (options d)))) (options d),
      confidence = 0.85,
      interaction_effects = [(BEHAVIORAL_PSYCHOLOGY, 0.9)]\<rparr>"

text \<open>
  \<^verbatim>\<open>analyze_domain(decision, domain)\<close>: the second parameter is untyped and never
  read, so it has an arbitrary type here. The body has no raise.
\<close>

definition analyze_domain :: "'v Decision \<Rightarrow> 'a \<Rightarrow> py_error + DomainAnalysis" where
  "analyze_domain decision dm = Inr (game_theory_analysis decision)"

text \<open>The dictionary comprehension \<^verbatim>\<open>{dom: self.analyze_domain(decision, dom) for dom in ...}\<close>.\<close>

fun analyze_each ::
  "'v Decision \<Rightarrow> (Domain \<times> DomainAnalysis) list \<Rightarrow> Domain list \<Rightarrow>
   py_error + (Domain \<times> DomainAnalysis) list" where
  "analyze_each decision acc [] = Inr acc"
| "analyze_each decision acc (dm # doms) =
     (case analyze_domain decision dm of
        Inl e \<Rightarrow> Inl e
      | Inr a \<Rightarrow> analyze_each decision (dict_set acc dm a) doms)"

definition calculate_context_weights ::
  "store \<Rightarrow> UniversalIntelligenceSynthesis \<Rightarrow> 'v Decision \<Rightarrow> (py_error + wdict) \<times> store" where
  "calculate_context_weights st self d =
     (let (w, st1) = dict_copy st (domain_weights self);
          (r, st2) = (if impact_scale d = ''global''
                      then dict_imul st1 w SYSTEMS_THINKING 1.5
                      else (Inr (), st1))
      in case r of
           Inl e \<Rightarrow> (Inl e, st2)
         | Inr u \<Rightarrow>
             (let total = sum_list (map snd (cells st2 w))
              in if cells st2 w \<noteq> [] \<and> total = 0 then (Inl ZeroDivisionError, st2)
                 else (Inr (map (\<lambda>(k, v). (k, v / total)) (cells st2 w)), st2)))"

text \<open>The inner loop of \<^verbatim>\<open>_perform_synthesis\<close> over one analysis' predictions.\<close>

fun accumulate_predictions ::
  "(string \<times> real) list \<Rightarrow> real \<Rightarrow> real \<Rightarrow> (string \<times> real) list \<Rightarrow> (string \<times> real) list" where
  "accumulate_predictions scores w conf [] = scores"
| "accumulate_predictions scores w conf ((opt, prob) # ps) =
     accumulate_predictions (dict_set scores opt (dict_get scores opt 0 + prob * w * conf)) w conf ps"

text \<open>The outer loop over \<^verbatim>\<open>analyses.items()\<close>; \<^verbatim>\<open>weights[dom]\<close> raises KeyError.\<close>

fun accumulate_analyses ::
  "wdict \<Rightarrow> (string \<times> real) list \<Rightarrow> (Domain \<times> DomainAnalysis) list \<Rightarrow> py_error + (string \<times> real) list" where
  "accumulate_analyses weights scores [] = Inr scores"
| "accumulate_analyses weights scores ((dm, a) # rest) =
     (case map_of weights dm of
        None \<Rightarrow> Inl KeyError
      | Some w \<Rightarrow>
          accumulate_analyses weights
            (accumulate_predictions scores w (confidence a) (predictions a)) rest)"

text \<open>
  \<^verbatim>\<open>max(scores, key=scores.get)\<close> iterates the keys; \<^verbatim>\<open>scores.get\<close> of a key of
  \<^verbatim>\<open>scores\<close> is its value, so the default of \<open>dict_get\<close> is never used.
\<close>

definition perform_synthesis ::
  "(Domain \<times> DomainAnalysis) list \<Rightarrow> wdict \<Rightarrow> py_error + Synthesis" where
  "perform_synthesis analyses weights =
     (case accumulate_analyses weights [] analyses of
        Inl e \<Rightarrow> Inl e
      | Inr scores \<Rightarrow>
          (case py_max (map fst scores) (\<lambda>k. dict_get scores k 0) of
             Inl e \<Rightarrow> Inl e
           | Inr best \<Rightarrow>
               Inr \<lparr>recommended_option = best,
                    option_scores = scores,
                    synthesis_confidence = np_mean (map (\<lambda>(dm, a). confidence a) analyses)\<rparr>))"

definition generate_coordination_protocol ::
  "'v Decision \<Rightarrow> (Domain \<times> DomainAnalysis) list \<Rightarrow> Synthesis \<Rightarrow> Protocol" where
  "generate_coordination_protocol decision analyses synthesis =
     \<lparr>implementation_phases =
        [[(''phase'', ''foundation''), (''focus'', ''stakeholder_alignment''), (''duration'', ''20%'')],
         [(''phase'', ''coordination''), (''focus'', ''synchronized_action''), (''duration'', ''60%'')],
         [(''phase'', ''optimization''), (''focus'', ''continuous_improvement''), (''duration'', ''20%'')]]\<rparr>"

definition calculate_confidence_metrics :: "(Domain \<times> DomainAnalysis) list \<Rightarrow> ConfidenceMetrics" where
  "calculate_confidence_metrics analyses =
     (let confs = map (\<lambda>(dm, a). confidence a) analyses
      in \<lparr>average_confidence = np_mean confs,
          synthesis_reliability = np_mean confs * (1 - np_std confs)\<rparr>)"

definition synthesize_decision ::
  "store \<Rightarrow> UniversalIntelligenceSynthesis \<Rightarrow> 'v Decision \<Rightarrow> (py_error + SynthesisResult) \<times> store" where
  "synthesize_decision st self decision =
     (case analyze_each decision [] Domain_members of
        Inl e \<Rightarrow> (Inl e, st)
      | Inr domain_analyses \<Rightarrow>
          (case calculate_context_weights st self decision of
             (Inl e, st1) \<Rightarrow> (Inl e, st1)
           | (Inr weights, st1) \<Rightarrow>
               (case perform_synthesis domain_analyses weights of
                  Inl e \<Rightarrow> (Inl e, st1)
                | Inr synthesis \<Rightarrow>
                    (Inr \<lparr>decision_synthesis = synthesis,
                          coordination_protocol =
                            generate_coordination_protocol decision domain_analyses synthesis,
                          confidence_metrics = calculate_confidence_metrics domain_analyses\<rparr>,
                     st1))))"

section \<open>GlobalCoordinationNetwork\<close>

record GlobalCoordinationNetwork =
  intelligence_engine :: UniversalIntelligenceSynthesis

definition GlobalCoordinationNetwork_init :: "store \<Rightarrow> GlobalCoordinationNetwork \<times> store" where
  "GlobalCoordinationNetwork_init st =
     (let (eng, st1) = UniversalIntelligenceSynthesis_init st
      in (\<lparr>intelligence_engine = eng\<rparr>, st1))"

text \<open>
  The body of \<^verbatim>\<open>submit_decision\<close>. The parameter \<^verbatim>\<open>constraints\<close> is \<open>None\<close> when it
  is Python's None (its default); \<^verbatim>\<open>impact_scale\<close> and \<^verbatim>\<open>uncertainty_level\<close> are
  \<open>None\<close> when the caller omits them, and then take the defaults of the signature.
  The last statement calls \<^verbatim>\<open>self.intelligence_engine.synthesize_decision(decision)\<close>, a
  method that Python looks up on the engine object when the call is made: it is the parameter
  \<open>synthesize\<close> here, so that the Decision handed to the engine is visible whatever the
  engine does with it.
\<close>

definition submit_decision_via ::
  "(store \<Rightarrow> UniversalIntelligenceSynthesis \<Rightarrow> 'v Decision \<Rightarrow> 'r) \<Rightarrow>
   store \<Rightarrow> GlobalCoordinationNetwork \<Rightarrow> string \<Rightarrow> string list \<Rightarrow> string list \<Rightarrow>
   (string \<times> 'v) list option \<Rightarrow> string option \<Rightarrow> real option \<Rightarrow> 'r" where
  "submit_decision_via synthesize st self ctx stk opts constraints_arg impact_scale_arg
                       uncertainty_level_arg =
     (let impact = (case impact_scale_arg of None \<Rightarrow> ''personal'' | Some s \<Rightarrow> s);
          uncertainty = (case uncertainty_level_arg of None \<Rightarrow> 0.3 | Some u \<Rightarrow> u);
          cons = (case constraints_arg of None \<Rightarrow> [] | Some c \<Rightarrow> c);
          decision = \<lparr>context_field = ctx,
                      stakeholders = stk,
                      options = opts,
                      constraints = cons,
                      timeframe = 30,
                      impact_scale = impact,
                      uncertainty_level = uncertainty\<rparr>
      in synthesize st (intelligence_engine self) decision)"

text \<open>
  \<^verbatim>\<open>submit_decision\<close> on a network whose engine is a
  \<^verbatim>\<open>UniversalIntelligenceSynthesis\<close>, as the constructor of the network creates it: the
  method called is \<open>synthesize_decision\<close> above.
\<close>

definition submit_decision ::
  "store \<Rightarrow> GlobalCoordinationNetwork \<Rightarrow> string \<Rightarrow> string list \<Rightarrow> string list \<Rightarrow>
   (string \<times> 'v) list option \<Rightarrow> string option \<Rightarrow> real option \<Rightarrow>
   (py_error + SynthesisResult) \<times> store" where
  "submit_decision st self ctx stk opts constraints_arg impact_scale_arg uncertainty_level_arg =
     submit_decision_via synthesize_decision st self ctx stk opts constraints_arg impact_scale_arg
       uncertainty_level_arg"

section \<open>Auxiliary definitions for the statements\<close>

text \<open>
  The invariant of an engine in a store: its \<^verbatim>\<open>domain_weights\<close> reference is allocated
  and holds the base weights. \<^verbatim>\<open>__init__\<close> establishes it.
\<close>

definition engine_ok :: "store \<Rightarrow> UniversalIntelligenceSynthesis \<Rightarrow> bool" where
  "engine_ok st self =
     (domain_weights self < next_ref st \<and> cells st (domain_weights self) = initialize_domain_weights)"

text \<open>
  The dictionary \<^verbatim>\<open>_calculate_context_weights\<close> returns for \<^verbatim>\<open>impact_scale == "global"\<close>,
  written out (lemma \<open>ccw_global\<close> below).
\<close>

definition global_weights :: wdict where
  "global_weights =
     map (\<lambda>(k, v). (k, (if k = SYSTEMS_THINKING then v * 1.5 else v) / 1.065)) initialize_domain_weights"

text \<open>
  The reducer as the specification words it: the score of an option is the sum, over every
  domain's analysis and every (option, probability) pair it reports for that option, of
  probability * weight[domain] * confidence. This definition follows the specification; the
  loops of the source are \<open>accumulate_analyses\<close> and \<open>accumulate_predictions\<close> above.
\<close>

definition spec_option_score :: "(Domain \<times> DomainAnalysis) list \<Rightarrow> wdict \<Rightarrow> string \<Rightarrow> real" where
  "spec_option_score analyses weights opt =
     sum_list (map (\<lambda>(dm, a).
        sum_list (map (\<lambda>(opt', prob). if opt' = opt then prob * dict_get weights dm 0 * confidence a else 0)
                      (predictions a))) analyses)"

text \<open>The option labels that at least one analysis reports.\<close>

definition reported_options :: "(Domain \<times> DomainAnalysis) list \<Rightarrow> string set" where
  "reported_options analyses = (\<Union>(dm, a) \<in> set analyses. fst ` set (predictions a))"

text \<open>The store before any object is created.\<close>

definition initial_store :: store where
  "initial_store = \<lparr>cells = (\<lambda>r. []), next_ref = 0\<rparr>"

text \<open>
  A decision as \<^verbatim>\<open>tests/stress_1M.py\<close> builds them, with two of its players and
  MPCR 0.30.
\<close>

definition benchmark_decision :: "real Decision" where
  "benchmark_decision =
     \<lparr>context_field = ''Public-Goods Game MPCR=0.30'',
      stakeholders = [''player_0'', ''player_1''],
      options = [''contribute 0'', ''contribute full''],
      constraints = [(''mpcr'', 0.30)],
      timeframe = 1,
      impact_scale = ''global'',
      uncertainty_level = 0.2\<rparr>"

section \<open>Dictionaries, the maximum and the context weights\<close>

lemma map_of_dict_set: "map_of (dict_set d k v) = (map_of d)(k \<mapsto> v)"
  by (induction d k v rule: dict_set.induct) (auto simp: fun_eq_iff)

lemma keys_dict_set:
  "map fst (dict_set d k v) = (if k \<in> fst ` set d then map fst d else map fst d @ [k])"
  by (induction d k v rule: dict_set.induct) (auto simp: image_iff)

lemma distinct_dict_set: "distinct (map fst d) \<Longrightarrow> distinct (map fst (dict_set d k v))"
  by (simp add: keys_dict_set)

lemma dict_get_dict_set: "dict_get (dict_set d k v) k' dflt = (if k' = k then v else dict_get d k' dflt)"
  by (simp add: dict_get_def map_of_dict_set)

lemma base_total: "sum_list (map snd initialize_domain_weights) = 1"
  by (simp add: initialize_domain_weights_def)

lemma ccw_personal:
  assumes "engine_ok st self" "impact_scale d \<noteq> ''global''"
  shows "calculate_context_weights st self d =
     (Inr initialize_domain_weights, snd (dict_copy st (domain_weights self)))"
  using assms
  by (simp add: calculate_context_weights_def dict_copy_def new_dict_def engine_ok_def base_total Let_def)

lemma ccw_global:
  assumes "engine_ok st self" "impact_scale d = ''global''"
  shows "fst (calculate_context_weights st self d) = Inr global_weights"
  using assms
  apply (simp add: calculate_context_weights_def dict_copy_def new_dict_def engine_ok_def dict_imul_def Let_def split: prod.splits)
  apply (simp add: initialize_domain_weights_def global_weights_def)
  done

lemma ccw_store:
  assumes "engine_ok st self"
  shows "engine_ok (snd (calculate_context_weights st self d)) self"
  using assms
  by (simp add: calculate_context_weights_def dict_copy_def new_dict_def engine_ok_def dict_imul_def Let_def split: prod.splits option.splits sum.splits)

lemma acc_pred_get:
  "dict_get (accumulate_predictions scores w c ps) k 0 =
     dict_get scores k 0 + sum_list (map (\<lambda>(opt', prob). if opt' = k then prob * w * c else 0) ps)"
  by (induction scores w c ps rule: accumulate_predictions.induct) (auto simp: dict_get_dict_set)

lemma acc_pred_keys:
  "fst ` set (accumulate_predictions scores w c ps) = fst ` set scores \<union> fst ` set ps"
proof (induction scores w c ps rule: accumulate_predictions.induct)
  case (1 scores w conf)
  then show ?case by simp
next
  case (2 scores w conf opt prob ps)
  have "fst ` set (dict_set scores opt v) = insert opt (fst ` set scores)" for v
    using keys_dict_set[of scores opt v] 
    by (metis (no_types, lifting) insert_absorb list.set_map list.simps(15) rotate1.simps(2) set_rotate1)
  with 2 show ?case by auto
qed

lemma acc_pred_distinct:
  "distinct (map fst scores) \<Longrightarrow> distinct (map fst (accumulate_predictions scores w c ps))"
  by (induction scores w c ps rule: accumulate_predictions.induct) (auto simp: distinct_dict_set)

lemma acc_analyses:
  assumes "\<forall>dm \<in> fst ` set analyses. map_of weights dm \<noteq> None" "distinct (map fst scores)"
  shows "\<exists>scores'. accumulate_analyses weights scores analyses = Inr scores'
      \<and> distinct (map fst scores')
      \<and> fst ` set scores' = fst ` set scores \<union> reported_options analyses
      \<and> (\<forall>k. dict_get scores' k 0 = dict_get scores k 0 + spec_option_score analyses weights k)"
  using assms
proof (induction weights scores analyses rule: accumulate_analyses.induct)
  case (1 weights scores)
  then show ?case by (simp add: reported_options_def spec_option_score_def)
next
  case (2 weights scores dm a rest)
  then obtain w where w: "map_of weights dm = Some w" by auto
  let ?s = "accumulate_predictions scores w (confidence a) (predictions a)"
  have d: "distinct (map fst ?s)" using 2 by (simp add: acc_pred_distinct)
  from 2(1)[OF w _ d] 2(2) obtain scores' where s: "accumulate_analyses weights ?s rest = Inr scores'"
     "distinct (map fst scores')" "fst ` set scores' = fst ` set ?s \<union> reported_options rest"
     "\<forall>k. dict_get scores' k 0 = dict_get ?s k 0 + spec_option_score rest weights k"
    by auto
  have g: "dict_get weights dm 0 = w" using w by (simp add: dict_get_def)
  have k: "fst ` set scores' = fst ` set scores \<union> reported_options ((dm, a) # rest)"
    using s(3) by (auto simp: acc_pred_keys reported_options_def)
  have v: "\<forall>k. dict_get scores' k 0 = dict_get scores k 0 + spec_option_score ((dm, a) # rest) weights k"
    using s(4) by (simp add: acc_pred_get spec_option_score_def g cong: if_cong)
  show ?case
    using s(1,2) w k v by simp
qed

lemma max_loop_mem: "max_loop key best xs \<in> insert best (set xs)"
  by (induction key best xs rule: max_loop.induct) auto

lemma max_loop_ge_best: "key best \<le> key (max_loop key best xs)"
proof (induction key best xs rule: max_loop.induct)
  case (1 key best)
  then show ?case by simp
next
  case (2 key best x xs)
  then show ?case by (auto split: if_splits intro: order_trans less_imp_le)
qed

lemma max_loop_ge: "x \<in> set xs \<Longrightarrow> key x \<le> key (max_loop key best xs)"
proof (induction key best xs rule: max_loop.induct)
  case (1 key best)
  then show ?case by simp
next
  case (2 key best y ys)
  show ?case
  proof (cases "x = y")
    case True
    have "key y \<le> key (if key best < key y then y else best)" by simp
    also have "\<dots> \<le> key (max_loop key (if key best < key y then y else best) ys)"
      by (rule max_loop_ge_best)
    finally show ?thesis using True by simp
  next
    case False
    with 2 show ?thesis by simp
  qed
qed


lemma py_max_props:
  assumes "xs \<noteq> []"
  shows "\<exists>b. py_max xs key = Inr b \<and> b \<in> set xs \<and> (\<forall>x \<in> set xs. key x \<le> key b)"
proof (cases xs)
  case Nil
  with assms show ?thesis by simp
next
  case (Cons y ys)
  have "max_loop key y ys \<in> set xs" using max_loop_mem[of key y ys] Cons by simp
  moreover have "\<forall>x \<in> set xs. key x \<le> key (max_loop key y ys)"
    using Cons max_loop_ge[of _ ys key y] max_loop_ge_best[of key y ys] by auto
  ultimately show ?thesis using Cons by (simp add: py_max_def)
qed

lemma Domain_UNIV: "(UNIV :: Domain set) = set Domain_members"
proof -
  have "x \<in> set Domain_members" for x
    by (cases x) (simp_all add: Domain_members_def)
  then show ?thesis by auto
qed

lemma catalog_length:
  assumes "distinct (map fst analyses)" "fst ` set analyses = (UNIV :: Domain set)"
  shows "length analyses = 10"
proof -
  have "length analyses = length (map fst analyses)" by simp
  also have "\<dots> = card (set (map fst analyses))"
    using assms(1) by (rule distinct_card[symmetric])
  also have "\<dots> = card (set Domain_members)"
    using assms(2) by (simp add: Domain_UNIV)
  also have "\<dots> = 10"
    by (simp add: Domain_members_def)
  finally show ?thesis .
qed

lemma map_of_distinct_entry:
  "distinct (map fst d) \<Longrightarrow> (k, v) \<in> set d \<Longrightarrow> dict_get d k dflt = v"
  by (simp add: dict_get_def)

lemma dict_get_key:
  "k \<in> fst ` set d \<Longrightarrow> map_of d k = Some (dict_get d k dflt)"
  by (auto simp: dict_get_def map_of_eq_None_iff split: option.splits)

lemma analyze_each_stub:
  "analyze_each d [] Domain_members = Inr (map (\<lambda>dm. (dm, game_theory_analysis d)) Domain_members)"
  by (simp add: Domain_members_def analyze_domain_def)








lemma base_weights_cover:
  "fst ` set initialize_domain_weights = UNIV"
  "sum_list (map (\<lambda>dm. dict_get initialize_domain_weights dm 0) Domain_members) = 1"
  by (simp_all add: Domain_UNIV Domain_members_def initialize_domain_weights_def dict_get_def)

lemma global_weights_cover:
  "fst ` set global_weights = UNIV"
  "sum_list (map (\<lambda>dm. dict_get global_weights dm 0) Domain_members) = 1"
  by (simp_all add: Domain_UNIV Domain_members_def global_weights_def initialize_domain_weights_def dict_get_def)

lemma ccw_result:
  assumes "engine_ok st self"
  shows "\<exists>W st'. calculate_context_weights st self d = (Inr W, st')
           \<and> engine_ok st' self
           \<and> W = (if impact_scale d = ''global'' then global_weights else initialize_domain_weights)"
proof -
  obtain r st' where c: "calculate_context_weights st self d = (r, st')"
    by (cases "calculate_context_weights st self d")
  have ok: "engine_ok st' self"
    using ccw_store[OF assms, of d] c by simp
  have "r = Inr (if impact_scale d = ''global'' then global_weights else initialize_domain_weights)"
    using ccw_global[OF assms, of d] ccw_personal[OF assms, of d] c by (cases "impact_scale d = ''global''") auto
  with c ok show ?thesis by simp
qed

lemma ccw_weights_cover:
  assumes "W = (if impact_scale d = ''global'' then global_weights else initialize_domain_weights)"
  shows "fst ` set W = UNIV" "sum_list (map (\<lambda>dm. dict_get W dm 0) Domain_members) = 1"
  using assms base_weights_cover global_weights_cover by (auto split: if_splits)

lemma stub_reported:
  "reported_options (map (\<lambda>dm. (dm, game_theory_analysis d)) Domain_members) = set (options d)"
  by (auto simp: reported_options_def game_theory_analysis_def Domain_members_def image_iff)

lemma stub_confidences:
  "map (\<lambda>(dm, a). confidence a) (map (\<lambda>dm. (dm, game_theory_analysis d)) Domain_members)
     = replicate 10 0.85"
  by (simp add: Domain_members_def game_theory_analysis_def numeral_eq_Suc)

lemma mean_replicate: "np_mean (replicate 10 c) = c"
  by (simp add: np_mean_def sum_list_replicate)

lemma std_replicate: "np_std (replicate 10 c) = 0"
  by (simp add: np_std_def mean_replicate)

lemma stub_metrics:
  "calculate_confidence_metrics (map (\<lambda>dm. (dm, game_theory_analysis d)) Domain_members)
     = \<lparr>average_confidence = 0.85, synthesis_reliability = 0.85\<rparr>"
  unfolding calculate_confidence_metrics_def stub_confidences
  by (simp add: mean_replicate std_replicate)

lemma stub_synthesis_some:
  assumes "options d \<noteq> []" "fst ` set W = UNIV"
  shows "\<exists>syn. perform_synthesis (map (\<lambda>dm. (dm, game_theory_analysis d)) Domain_members) W = Inr syn
           \<and> synthesis_confidence syn = 0.85"
proof -
  let ?A = "map (\<lambda>dm. (dm, game_theory_analysis d)) Domain_members"
  have w: "\<forall>dm \<in> fst ` set ?A. map_of W dm \<noteq> None"
    using assms(2) by (simp add: map_of_eq_None_iff)
  from acc_analyses[OF w, of "[]"] obtain scores where s:
    "accumulate_analyses W [] ?A = Inr scores" "fst ` set scores = set (options d)"
    by (auto simp: stub_reported)
  have "map fst scores \<noteq> []" using s(2) assms(1) by auto
  from py_max_props[OF this, of "\<lambda>k. dict_get scores k 0"] obtain b where
    "py_max (map fst scores) (\<lambda>k. dict_get scores k 0) = Inr b" by auto
  with s(1) show ?thesis
    unfolding perform_synthesis_def stub_confidences mean_replicate by simp
qed


lemma synthesize_unfold:
  "synthesize_decision st self d =
     (case calculate_context_weights st self d of
        (Inl e, st1) \<Rightarrow> (Inl e, st1)
      | (Inr weights, st1) \<Rightarrow>
          (case perform_synthesis (map (\<lambda>dm. (dm, game_theory_analysis d)) Domain_members) weights of
             Inl e \<Rightarrow> (Inl e, st1)
           | Inr synthesis \<Rightarrow>
               (Inr \<lparr>decision_synthesis = synthesis,
                     coordination_protocol =
                       generate_coordination_protocol d
                         (map (\<lambda>dm. (dm, game_theory_analysis d)) Domain_members) synthesis,
                     confidence_metrics =
                       calculate_confidence_metrics (map (\<lambda>dm. (dm, game_theory_analysis d)) Domain_members)\<rparr>,
                st1)))"
  by (simp add: synthesize_decision_def analyze_each_stub)

section \<open>The analysis stub, the pipeline and the engine invariant\<close>

lemma stub_synthesis_empty:
  assumes "options d = []" "fst ` set W = UNIV"
  shows "perform_synthesis (map (\<lambda>dm. (dm, game_theory_analysis d)) Domain_members) W = Inl ValueError"
proof -
  let ?A = "map (\<lambda>dm. (dm, game_theory_analysis d)) Domain_members"
  have w: "\<forall>dm \<in> fst ` set ?A. map_of W dm \<noteq> None"
    using assms(2) by (simp add: map_of_eq_None_iff)
  from acc_analyses[OF w, of "[]"] obtain scores where s:
    "accumulate_analyses W [] ?A = Inr scores" "fst ` set scores = set (options d)"
    by (auto simp: stub_reported)
  have "scores = []" using s(2) assms(1) by simp
  with s(1) show ?thesis by (simp add: perform_synthesis_def py_max_def)
qed

lemma synthesize_store_ok:
  assumes "engine_ok st self"
  shows "engine_ok (snd (synthesize_decision st self d)) self"
proof -
  from ccw_result[OF assms, of d] obtain W st' where
    c: "calculate_context_weights st self d = (Inr W, st')" "engine_ok st' self" by blast
  then show ?thesis
    by (simp add: synthesize_unfold split: sum.splits)
qed

lemma synthesize_result_independent:
  assumes "engine_ok st self" "engine_ok st2 self2"
  shows "fst (synthesize_decision st self d) = fst (synthesize_decision st2 self2 d)"
proof -
  from ccw_result[OF assms(1), of d] obtain W st' where
    c: "calculate_context_weights st self d = (Inr W, st')"
       "W = (if impact_scale d = ''global'' then global_weights else initialize_domain_weights)" by blast
  from ccw_result[OF assms(2), of d] obtain W2 st2' where
    c2: "calculate_context_weights st2 self2 d = (Inr W2, st2')"
       "W2 = (if impact_scale d = ''global'' then global_weights else initialize_domain_weights)" by blast
  from c c2 show ?thesis
    by (simp add: synthesize_unfold split: sum.splits)
qed

lemma init_engine_ok:
  "engine_ok (snd (UniversalIntelligenceSynthesis_init st0)) (fst (UniversalIntelligenceSynthesis_init st0))"
  by (simp add: UniversalIntelligenceSynthesis_init_def new_dict_def engine_ok_def)


lemma submit_unfold:
  "submit_decision st net ctx stk opts k i u =
     synthesize_decision st (intelligence_engine net)
       \<lparr>context_field = ctx, stakeholders = stk, options = opts,
        constraints = (case k of None \<Rightarrow> [] | Some c \<Rightarrow> c),
        timeframe = 30,
        impact_scale = (case i of None \<Rightarrow> ''personal'' | Some s \<Rightarrow> s),
        uncertainty_level = (case u of None \<Rightarrow> 0.3 | Some x \<Rightarrow> x)\<rparr>"
  by (simp add: submit_decision_def submit_decision_via_def Let_def)

lemma ccw_copy_cell:
  assumes "engine_ok st self" "impact_scale d = ''global''"
  shows "cells (snd (calculate_context_weights st self d)) (next_ref st)
           = dict_set initialize_domain_weights SYSTEMS_THINKING (0.13 * 1.5)"
  using assms
  apply (simp add: calculate_context_weights_def dict_copy_def new_dict_def engine_ok_def dict_imul_def Let_def split: prod.splits)
  apply (simp add: initialize_domain_weights_def)
  done

lemma stub_keys:
  "distinct (map fst (map (\<lambda>dm. (dm, game_theory_analysis d)) Domain_members))"
  "fst ` set (map (\<lambda>dm. (dm, game_theory_analysis d)) Domain_members) = UNIV"
  by (simp_all add: Domain_UNIV) (simp_all add: Domain_members_def)

lemma submit_via_unfold:
  "submit_decision_via synthesize st net ctx stk opts k i u =
     synthesize st (intelligence_engine net)
       \<lparr>context_field = ctx, stakeholders = stk, options = opts,
        constraints = (case k of None \<Rightarrow> [] | Some c \<Rightarrow> c),
        timeframe = 30,
        impact_scale = (case i of None \<Rightarrow> ''personal'' | Some s \<Rightarrow> s),
        uncertainty_level = (case u of None \<Rightarrow> 0.3 | Some x \<Rightarrow> x)\<rparr>"
  by (simp add: submit_decision_via_def Let_def)

lemma submit_empty_outcome:
  assumes "engine_ok st (intelligence_engine net)"
  shows "\<exists>analyses weights st'.
           analyze_each \<lparr>context_field = ctx, stakeholders = stk, options = [],
                 constraints = (case k of None \<Rightarrow> [] | Some c \<Rightarrow> c),
                 timeframe = 30,
                 impact_scale = (case i of None \<Rightarrow> ''personal'' | Some s \<Rightarrow> s),
                 uncertainty_level = (case u of None \<Rightarrow> 0.3 | Some x \<Rightarrow> x)\<rparr> [] Domain_members = Inr analyses
         \<and> calculate_context_weights st (intelligence_engine net)
               \<lparr>context_field = ctx, stakeholders = stk, options = [],
                 constraints = (case k of None \<Rightarrow> [] | Some c \<Rightarrow> c),
                 timeframe = 30,
                 impact_scale = (case i of None \<Rightarrow> ''personal'' | Some s \<Rightarrow> s),
                 uncertainty_level = (case u of None \<Rightarrow> 0.3 | Some x \<Rightarrow> x)\<rparr> = (Inr weights, st')
         \<and> accumulate_analyses weights [] analyses = Inr []
         \<and> perform_synthesis analyses weights = Inl ValueError
         \<and> submit_decision st net ctx stk [] k i u = (Inl ValueError, st')"
proof -
  let ?d = "\<lparr>context_field = ctx, stakeholders = stk, options = [],
        constraints = (case k of None \<Rightarrow> [] | Some c \<Rightarrow> c),
        timeframe = 30,
        impact_scale = (case i of None \<Rightarrow> ''personal'' | Some s \<Rightarrow> s),
        uncertainty_level = (case u of None \<Rightarrow> 0.3 | Some x \<Rightarrow> x)\<rparr>"
  let ?A = "map (\<lambda>dm. (dm, game_theory_analysis ?d)) Domain_members"
  from ccw_result[OF assms, of ?d] obtain W st' where
    c: "calculate_context_weights st (intelligence_engine net) ?d = (Inr W, st')"
       "W = (if impact_scale ?d = ''global'' then global_weights else initialize_domain_weights)" by blast
  have cover: "fst ` set W = UNIV" using c(2) by (rule ccw_weights_cover(1))
  have p: "perform_synthesis ?A W = Inl ValueError"
    using cover by (intro stub_synthesis_empty) simp_all
  have w: "\<forall>dm \<in> fst ` set ?A. map_of W dm \<noteq> None"
    using cover by (simp add: map_of_eq_None_iff)
  from acc_analyses[OF w, of "[]"] obtain scores where s:
    "accumulate_analyses W [] ?A = Inr scores" "fst ` set scores = set (options ?d)"
    by (auto simp: stub_reported)
  have e: "accumulate_analyses W [] ?A = Inr []" using s by simp
  have a: "analyze_each ?d [] Domain_members = Inr ?A" by (rule analyze_each_stub)
  have r: "submit_decision st net ctx stk [] k i u = (Inl ValueError, st')"
    using c(1) p by (simp add: submit_unfold synthesize_unfold)
  from a c(1) e p r show ?thesis by blast
qed

lemma initial_network_ok:
  "engine_ok (snd (GlobalCoordinationNetwork_init initial_store))
             (intelligence_engine (fst (GlobalCoordinationNetwork_init initial_store)))"
  by (simp add: GlobalCoordinationNetwork_init_def UniversalIntelligenceSynthesis_init_def
        new_dict_def engine_ok_def initial_store_def)

section \<open>The claims\<close>

text \<open>
  Claim C1. For a synthesis over one analysis per catalog domain (distinct keys covering the
  whole catalog) and weights defined for every domain, the reducer accumulates, for each
  domain's (option, probability) pair, probability * weight[domain] * confidence into a
  dictionary keyed by option label, starting from 0 for an unseen option: the dictionary has
  distinct keys, its keys are exactly the reported options, and each value is the sum the
  specification describes. The recommended option is a key of that dictionary whose score is
  at least every other score, and the synthesis confidence is the unweighted sum of the ten
  confidences divided by ten. When no analysis reports any option there is no result: the
  maximum over the empty dictionary raises ValueError.
\<close>

theorem perform_synthesis_correct:
  assumes "distinct (map fst analyses)"
    and "fst ` set analyses = UNIV"
    and "fst ` set weights = UNIV"
  shows "if reported_options analyses = {}
         then perform_synthesis analyses weights = Inl ValueError
         else (\<exists>res. perform_synthesis analyses weights = Inr res
                \<and> distinct (map fst (option_scores res))
                \<and> fst ` set (option_scores res) = reported_options analyses
                \<and> (\<forall>opt \<in> reported_options analyses.
                      map_of (option_scores res) opt = Some (spec_option_score analyses weights opt))
                \<and> recommended_option res \<in> fst ` set (option_scores res)
                \<and> (\<forall>(opt, v) \<in> set (option_scores res).
                      v \<le> dict_get (option_scores res) (recommended_option res) 0)
                \<and> synthesis_confidence res = sum_list (map (\<lambda>(dm, a). confidence a) analyses) / 10)"
proof -
  have w: "\<forall>dm \<in> fst ` set analyses. map_of weights dm \<noteq> None"
    using assms(3) by (simp add: map_of_eq_None_iff)
  from acc_analyses[OF w, of "[]"] obtain scores where s:
    "accumulate_analyses weights [] analyses = Inr scores"
    "distinct (map fst scores)"
    "fst ` set scores = reported_options analyses"
    "\<forall>k. dict_get scores k 0 = spec_option_score analyses weights k"
    by (auto simp: dict_get_def)
  show ?thesis
  proof (cases "reported_options analyses = {}")
    case True
    then have "scores = []" using s(3) by simp
    then show ?thesis using True s(1) by (simp add: perform_synthesis_def py_max_def)
  next
    case False
    then have ne: "map fst scores \<noteq> []" using s(3) by auto
    from py_max_props[OF ne, of "\<lambda>k. dict_get scores k 0"] obtain b where b:
      "py_max (map fst scores) (\<lambda>k. dict_get scores k 0) = Inr b"
      "b \<in> fst ` set scores"
      "\<forall>x \<in> fst ` set scores. dict_get scores x 0 \<le> dict_get scores b 0"
      by auto
    let ?res = "\<lparr>recommended_option = b, option_scores = scores,
                 synthesis_confidence = np_mean (map (\<lambda>(dm, a). confidence a) analyses)\<rparr>"
    have r: "perform_synthesis analyses weights = Inr ?res"
      using s(1) b(1) by (simp add: perform_synthesis_def)
    have v: "\<forall>opt \<in> reported_options analyses.
               map_of scores opt = Some (spec_option_score analyses weights opt)"
      using s(3,4) dict_get_key[of _ scores 0] by auto
    have m: "\<forall>(opt, v) \<in> set scores. v \<le> dict_get scores b 0"
    proof (clarify)
      fix opt v assume e: "(opt, v) \<in> set scores"
      then have "dict_get scores opt 0 = v" using s(2) by (rule map_of_distinct_entry[rotated])
      moreover have "opt \<in> fst ` set scores" using e by force
      ultimately show "v \<le> dict_get scores b 0" using b(3) by auto
    qed
    have c: "np_mean (map (\<lambda>(dm, a). confidence a) analyses)
               = sum_list (map (\<lambda>(dm, a). confidence a) analyses) / 10"
      using catalog_length[OF assms(1,2)] by (simp add: np_mean_def)
    show ?thesis
      using False r s(2,3) v b(2) m c by simp
  qed
qed

text \<open>Claim C1 at a concrete input.\<close>

theorem perform_synthesis_correct_witness:
  "distinct (map fst (map (\<lambda>dm. (dm, game_theory_analysis benchmark_decision)) Domain_members))
   \<and> fst ` set (map (\<lambda>dm. (dm, game_theory_analysis benchmark_decision)) Domain_members) = UNIV
   \<and> fst ` set initialize_domain_weights = UNIV
   \<and> (\<exists>res. perform_synthesis (map (\<lambda>dm. (dm, game_theory_analysis benchmark_decision)) Domain_members)
                 initialize_domain_weights = Inr res
          \<and> recommended_option res \<in> fst ` set (option_scores res)
          \<and> fst ` set (option_scores res) = {''contribute 0'', ''contribute full''}
          \<and> synthesis_confidence res = 17 / 20)"
proof -
  let ?A = "map (\<lambda>dm. (dm, game_theory_analysis benchmark_decision)) Domain_members"
  have ne: "reported_options ?A = {''contribute 0'', ''contribute full''}"
    by (simp add: stub_reported benchmark_decision_def)
  have cf: "sum_list (map (\<lambda>(dm, a). confidence a) ?A) / 10 = 17 / 20"
    unfolding stub_confidences by (simp add: sum_list_replicate)
  show ?thesis
    using perform_synthesis_correct[OF stub_keys base_weights_cover(1), of benchmark_decision]
      stub_keys[of benchmark_decision] base_weights_cover(1) ne cf
    by auto
qed

text \<open>
  Claim C2. For every decision, the context weights are the base weights, with the weight of
  SYSTEMS_THINKING multiplied by 1.5 exactly when the impact scale is the string global, each
  divided by the sum of all of them; the returned weights sum to 1 (exactly, over the reals).
\<close>

theorem calculate_context_weights_normalized:
  assumes "engine_ok st self"
  shows "\<exists>ws st'. calculate_context_weights st self d = (Inr ws, st')
          \<and> (let scaled = map (\<lambda>(k, v). (k, if impact_scale d = ''global'' \<and> k = SYSTEMS_THINKING
                                               then v * 1.5 else v)) initialize_domain_weights
             in ws = map (\<lambda>(k, v). (k, v / sum_list (map snd scaled))) scaled)
          \<and> sum_list (map snd ws) = 1"
proof (cases "impact_scale d = ''global''")
  case True
  have "fst (calculate_context_weights st self d) = Inr global_weights"
    using assms True by (rule ccw_global)
  then have "calculate_context_weights st self d =
      (Inr global_weights, snd (calculate_context_weights st self d))"
    by (metis prod.collapse)
  moreover have "sum_list (map snd global_weights) = 1"
    by (simp add: global_weights_def initialize_domain_weights_def)
  moreover have "global_weights =
     (let scaled = map (\<lambda>(k, v). (k, if impact_scale d = ''global'' \<and> k = SYSTEMS_THINKING
                                               then v * 1.5 else v)) initialize_domain_weights
             in map (\<lambda>(k, v). (k, v / sum_list (map snd scaled))) scaled)"
    using True by (simp add: global_weights_def initialize_domain_weights_def)
  ultimately show ?thesis by (metis)
next
  case False
  have "calculate_context_weights st self d =
     (Inr initialize_domain_weights, snd (dict_copy st (domain_weights self)))"
    using assms False by (rule ccw_personal)
  moreover have "initialize_domain_weights =
     (let scaled = map (\<lambda>(k, v). (k, if impact_scale d = ''global'' \<and> k = SYSTEMS_THINKING
                                               then v * 1.5 else v)) initialize_domain_weights
             in map (\<lambda>(k, v). (k, v / sum_list (map snd scaled))) scaled)"
    using False by (simp add: initialize_domain_weights_def)
  ultimately show ?thesis using base_total by metis
qed

text \<open>Claim C2 at a concrete input.\<close>

theorem calculate_context_weights_normalized_witness:
  "engine_ok (snd (UniversalIntelligenceSynthesis_init initial_store))
             (fst (UniversalIntelligenceSynthesis_init initial_store))
   \<and> (\<exists>ws st'. calculate_context_weights (snd (UniversalIntelligenceSynthesis_init initial_store))
                   (fst (UniversalIntelligenceSynthesis_init initial_store)) benchmark_decision = (Inr ws, st')
          \<and> map_of ws SYSTEMS_THINKING = Some (0.195 / 1.065)
          \<and> map_of ws GAME_THEORY = Some (0.15 / 1.065)
          \<and> sum_list (map snd ws) = 1)"
proof -
  have ok: "engine_ok (snd (UniversalIntelligenceSynthesis_init initial_store))
             (fst (UniversalIntelligenceSynthesis_init initial_store))"
    by (simp add: UniversalIntelligenceSynthesis_init_def new_dict_def engine_ok_def initial_store_def)
  show ?thesis
    using ok calculate_context_weights_normalized[OF ok, of benchmark_decision]
    by (auto simp: benchmark_decision_def initialize_domain_weights_def Let_def)
qed





text \<open>
  Claim C5, as amended. The domain-analysis operation never reads the requested domain: for
  every decision and every requested value, a catalog domain or anything else, it returns the
  game-theory analysis (domain GAME_THEORY, every option of the decision with probability one
  over the number of options, confidence 0.85) and raises nothing.
\<close>

theorem analyze_domain_ignores_domain:
  "analyze_domain d x =
     Inr \<lparr>domain = GAME_THEORY,
          insights = [''Nash equilibrium'', ''Coalition stability''],
          predictions = map (\<lambda>op. (op, 1 / real (length (options d)))) (options d),
          confidence = 0.85,
          interaction_effects = [(BEHAVIORAL_PSYCHOLOGY, 0.9)]\<rparr>"
  by (simp add: analyze_domain_def game_theory_analysis_def)

text \<open>
  Claim C5 as the specification states it fails at the benchmark decision: the analysis
  requested for ETHICS is labelled GAME_THEORY and equals the one requested for GAME_THEORY,
  and a request for a value outside the catalog returns that same analysis instead of failing.
\<close>

theorem analyze_domain_specific_counterexample:
  "analyze_domain benchmark_decision ETHICS =
     Inr \<lparr>domain = GAME_THEORY,
          insights = [''Nash equilibrium'', ''Coalition stability''],
          predictions = [(''contribute 0'', 1 / 2), (''contribute full'', 1 / 2)],
          confidence = 0.85,
          interaction_effects = [(BEHAVIORAL_PSYCHOLOGY, 0.9)]\<rparr>
   \<and> analyze_domain benchmark_decision ETHICS = analyze_domain benchmark_decision GAME_THEORY
   \<and> analyze_domain benchmark_decision ''astrology'' =
     Inr \<lparr>domain = GAME_THEORY,
          insights = [''Nash equilibrium'', ''Coalition stability''],
          predictions = [(''contribute 0'', 1 / 2), (''contribute full'', 1 / 2)],
          confidence = 0.85,
          interaction_effects = [(BEHAVIORAL_PSYCHOLOGY, 0.9)]\<rparr>"
  by (simp add: analyze_domain_def game_theory_analysis_def benchmark_decision_def)

text \<open>Claim C5 at a concrete input.\<close>

theorem analyze_domain_ignores_domain_witness:
  "analyze_domain benchmark_decision PHYSICS =
     Inr \<lparr>domain = GAME_THEORY,
          insights = [''Nash equilibrium'', ''Coalition stability''],
          predictions = [(''contribute 0'', 1 / 2), (''contribute full'', 1 / 2)],
          confidence = 0.85,
          interaction_effects = [(BEHAVIORAL_PSYCHOLOGY, 0.9)]\<rparr>"
  using analyze_domain_ignores_domain[of benchmark_decision PHYSICS]
  by (simp add: benchmark_decision_def)

text \<open>
  Claim C6, as amended. Submitting a decision with an empty list of options fails with
  Python's built-in ValueError: the ten analyses and the context weights are computed without
  error, the score dictionary of the reducer stays empty, \<^verbatim>\<open>max\<close> over it raises
  ValueError, and nothing between the reducer and the caller catches it or substitutes a
  default, so it is the outcome of \<^verbatim>\<open>submit_decision\<close>. No input is validated before the
  reducer runs, and the code has no InputValidationError and no EmptyOptionSet.
\<close>

theorem submit_decision_empty_options:
  assumes "engine_ok st (intelligence_engine net)"
  shows "fst (submit_decision st net ctx stk [] k i u) = Inl ValueError
       \<and> exception_name ValueError = ''ValueError''
       \<and> (\<exists>analyses weights st'.
           analyze_each \<lparr>context_field = ctx, stakeholders = stk, options = [],
                 constraints = (case k of None \<Rightarrow> [] | Some c \<Rightarrow> c),
                 timeframe = 30,
                 impact_scale = (case i of None \<Rightarrow> ''personal'' | Some s \<Rightarrow> s),
                 uncertainty_level = (case u of None \<Rightarrow> 0.3 | Some x \<Rightarrow> x)\<rparr> [] Domain_members = Inr analyses
         \<and> calculate_context_weights st (intelligence_engine net)
               \<lparr>context_field = ctx, stakeholders = stk, options = [],
                 constraints = (case k of None \<Rightarrow> [] | Some c \<Rightarrow> c),
                 timeframe = 30,
                 impact_scale = (case i of None \<Rightarrow> ''personal'' | Some s \<Rightarrow> s),
                 uncertainty_level = (case u of None \<Rightarrow> 0.3 | Some x \<Rightarrow> x)\<rparr> = (Inr weights, st')
         \<and> accumulate_analyses weights [] analyses = Inr []
         \<and> perform_synthesis analyses weights = Inl ValueError
         \<and> submit_decision st net ctx stk [] k i u = (Inl ValueError, st'))"
proof -
  from submit_empty_outcome[OF assms, of ctx stk k i u] obtain analyses weights st' where
    f: "analyze_each \<lparr>context_field = ctx, stakeholders = stk, options = [],
                 constraints = (case k of None \<Rightarrow> [] | Some c \<Rightarrow> c),
                 timeframe = 30,
                 impact_scale = (case i of None \<Rightarrow> ''personal'' | Some s \<Rightarrow> s),
                 uncertainty_level = (case u of None \<Rightarrow> 0.3 | Some x \<Rightarrow> x)\<rparr> [] Domain_members = Inr analyses"
       "calculate_context_weights st (intelligence_engine net)
               \<lparr>context_field = ctx, stakeholders = stk, options = [],
                 constraints = (case k of None \<Rightarrow> [] | Some c \<Rightarrow> c),
                 timeframe = 30,
                 impact_scale = (case i of None \<Rightarrow> ''personal'' | Some s \<Rightarrow> s),
                 uncertainty_level = (case u of None \<Rightarrow> 0.3 | Some x \<Rightarrow> x)\<rparr> = (Inr weights, st')"
       "accumulate_analyses weights [] analyses = Inr []"
       "perform_synthesis analyses weights = Inl ValueError"
       "submit_decision st net ctx stk [] k i u = (Inl ValueError, st')"
    by blast
  have "fst (submit_decision st net ctx stk [] k i u) = Inl ValueError"
    using f(5) by simp
  moreover have "exception_name ValueError = ''ValueError''" by simp
  ultimately show ?thesis using f by blast
qed

text \<open>
  Claim C6 as the specification states it fails for the call with context choice, one
  stakeholder and no options on a newly constructed network: the call fails, and the class of
  the exception is ValueError, neither InputValidationError nor EmptyOptionSet.
\<close>

theorem submit_decision_empty_options_counterexample:
  "isl (fst (submit_decision (snd (GlobalCoordinationNetwork_init initial_store))
            (fst (GlobalCoordinationNetwork_init initial_store))
            ''choice'' [''alice''] [] (None :: (string \<times> real) list option) None None))
   \<and> exception_name (projl (fst (submit_decision (snd (GlobalCoordinationNetwork_init initial_store))
            (fst (GlobalCoordinationNetwork_init initial_store))
            ''choice'' [''alice''] [] (None :: (string \<times> real) list option) None None)))
       = ''ValueError''
   \<and> exception_name (projl (fst (submit_decision (snd (GlobalCoordinationNetwork_init initial_store))
            (fst (GlobalCoordinationNetwork_init initial_store))
            ''choice'' [''alice''] [] (None :: (string \<times> real) list option) None None)))
       \<noteq> ''InputValidationError''
   \<and> exception_name (projl (fst (submit_decision (snd (GlobalCoordinationNetwork_init initial_store))
            (fst (GlobalCoordinationNetwork_init initial_store))
            ''choice'' [''alice''] [] (None :: (string \<times> real) list option) None None)))
       \<noteq> ''EmptyOptionSet''"
proof -
  from submit_empty_outcome[OF initial_network_ok, of "''choice''" "[''alice'']"
      "None :: (string \<times> real) list option" None None]
  obtain st' where
    "submit_decision (snd (GlobalCoordinationNetwork_init initial_store))
            (fst (GlobalCoordinationNetwork_init initial_store))
            ''choice'' [''alice''] [] (None :: (string \<times> real) list option) None None
      = (Inl ValueError, st')"
    by blast
  then show ?thesis by simp
qed

text \<open>Claim C6 at a concrete input.\<close>

theorem submit_decision_empty_options_witness:
  "engine_ok (snd (GlobalCoordinationNetwork_init initial_store))
             (intelligence_engine (fst (GlobalCoordinationNetwork_init initial_store)))
   \<and> fst (submit_decision (snd (GlobalCoordinationNetwork_init initial_store))
            (fst (GlobalCoordinationNetwork_init initial_store))
            ''Public-Goods Game'' [''player_0''] [] (None :: (string \<times> real) list option)
            (Some ''global'') None) = Inl ValueError"
proof -
  have ok: "engine_ok (snd (GlobalCoordinationNetwork_init initial_store))
             (intelligence_engine (fst (GlobalCoordinationNetwork_init initial_store)))"
    by (simp add: GlobalCoordinationNetwork_init_def UniversalIntelligenceSynthesis_init_def
        new_dict_def engine_ok_def initial_store_def)
  show ?thesis
    using ok submit_decision_empty_options[OF ok, of "''Public-Goods Game''" "[''player_0'']"
        "None :: (string \<times> real) list option" "Some ''global''" None]
    by blast
qed

text \<open>
  Claim C7. \<^verbatim>\<open>submit_decision\<close> is deterministic: a second call with the same arguments,
  run in the store the first call left behind, returns the same outcome (the same result, or
  the same exception) as the first.
\<close>

theorem submit_decision_deterministic:
  assumes "engine_ok st (intelligence_engine net)"
  shows "fst (submit_decision (snd (submit_decision st net ctx stk opts k i u)) net ctx stk opts k i u)
           = fst (submit_decision st net ctx stk opts k i u)"
proof -
  have "engine_ok (snd (submit_decision st net ctx stk opts k i u)) (intelligence_engine net)"
    unfolding submit_unfold using assms by (rule synthesize_store_ok)
  then show ?thesis
    unfolding submit_unfold using assms by (rule synthesize_result_independent)
qed

text \<open>Claim C7 at a concrete input.\<close>

theorem submit_decision_deterministic_witness:
  "engine_ok (snd (GlobalCoordinationNetwork_init initial_store))
             (intelligence_engine (fst (GlobalCoordinationNetwork_init initial_store)))
   \<and> fst (submit_decision
            (snd (submit_decision (snd (GlobalCoordinationNetwork_init initial_store))
               (fst (GlobalCoordinationNetwork_init initial_store))
               ''Public-Goods Game'' [''player_0''] [''contribute 0'', ''contribute full'']
               (Some [(''mpcr'', 0.3 :: real)]) (Some ''global'') (Some 0.2)))
            (fst (GlobalCoordinationNetwork_init initial_store))
            ''Public-Goods Game'' [''player_0''] [''contribute 0'', ''contribute full'']
            (Some [(''mpcr'', 0.3 :: real)]) (Some ''global'') (Some 0.2))
     = fst (submit_decision (snd (GlobalCoordinationNetwork_init initial_store))
            (fst (GlobalCoordinationNetwork_init initial_store))
            ''Public-Goods Game'' [''player_0''] [''contribute 0'', ''contribute full'']
            (Some [(''mpcr'', 0.3 :: real)]) (Some ''global'') (Some 0.2))"
proof -
  have ok: "engine_ok (snd (GlobalCoordinationNetwork_init initial_store))
             (intelligence_engine (fst (GlobalCoordinationNetwork_init initial_store)))"
    by (simp add: GlobalCoordinationNetwork_init_def UniversalIntelligenceSynthesis_init_def
        new_dict_def engine_ok_def initial_store_def)
  show ?thesis
    using ok submit_decision_deterministic[OF ok] by simp
qed

text \<open>
  Claim C8. \<^verbatim>\<open>submit_decision\<close> only fills in the defaults (no constraints, impact scale
  personal, uncertainty level 0.3), builds the Decision whose time frame is 30 and whose other
  fields are the arguments, and returns what the engine's \<^verbatim>\<open>synthesize_decision\<close> returns
  for exactly that Decision. The synthesis pipeline reads only the options and the impact scale
  of a Decision, so the Decision is pinned by the body of the method, for every behaviour of
  the engine method it calls. \<^verbatim>\<open>submit_decision\<close> rejects nothing itself: for a non-empty
  list of options the outcome is the record assembled from the reducer's synthesis, the fixed
  three-phase protocol and the confidence metrics of the ten analyses.
\<close>

theorem submit_decision_builds_decision:
  "(let d = \<lparr>context_field = ctx, stakeholders = stk, options = opts,
             constraints = (case k of None \<Rightarrow> [] | Some c \<Rightarrow> c),
             timeframe = 30,
             impact_scale = (case i of None \<Rightarrow> ''personal'' | Some s \<Rightarrow> s),
             uncertainty_level = (case u of None \<Rightarrow> 0.3 | Some x \<Rightarrow> x)\<rparr>
    in submit_decision_via synthesize st net ctx stk opts k i u
         = synthesize st (intelligence_engine net) d
       \<and> submit_decision st net ctx stk opts k i u
         = submit_decision_via synthesize_decision st net ctx stk opts k i u
       \<and> (engine_ok st (intelligence_engine net) \<longrightarrow> opts \<noteq> [] \<longrightarrow>
            (\<exists>res st' analyses weights.
                submit_decision st net ctx stk opts k i u = (Inr res, st')
              \<and> analyze_each d [] Domain_members = Inr analyses
              \<and> calculate_context_weights st (intelligence_engine net) d = (Inr weights, st')
              \<and> perform_synthesis analyses weights = Inr (decision_synthesis res)
              \<and> coordination_protocol res =
                  \<lparr>implementation_phases =
                     [[(''phase'', ''foundation''), (''focus'', ''stakeholder_alignment''),
                       (''duration'', ''20%'')],
                      [(''phase'', ''coordination''), (''focus'', ''synchronized_action''),
                       (''duration'', ''60%'')],
                      [(''phase'', ''optimization''), (''focus'', ''continuous_improvement''),
                       (''duration'', ''20%'')]]\<rparr>
              \<and> confidence_metrics res = calculate_confidence_metrics analyses)))"
proof -
  let ?d = "\<lparr>context_field = ctx, stakeholders = stk, options = opts,
        constraints = (case k of None \<Rightarrow> [] | Some c \<Rightarrow> c),
        timeframe = 30,
        impact_scale = (case i of None \<Rightarrow> ''personal'' | Some s \<Rightarrow> s),
        uncertainty_level = (case u of None \<Rightarrow> 0.3 | Some x \<Rightarrow> x)\<rparr>"
  let ?A = "map (\<lambda>dm. (dm, game_theory_analysis ?d)) Domain_members"
  let ?P = "\<lparr>implementation_phases =
                     [[(''phase'', ''foundation''), (''focus'', ''stakeholder_alignment''),
                       (''duration'', ''20%'')],
                      [(''phase'', ''coordination''), (''focus'', ''synchronized_action''),
                       (''duration'', ''60%'')],
                      [(''phase'', ''optimization''), (''focus'', ''continuous_improvement''),
                       (''duration'', ''20%'')]]\<rparr>"
  have pipeline: "\<exists>res st' analyses weights.
                submit_decision st net ctx stk opts k i u = (Inr res, st')
              \<and> analyze_each ?d [] Domain_members = Inr analyses
              \<and> calculate_context_weights st (intelligence_engine net) ?d = (Inr weights, st')
              \<and> perform_synthesis analyses weights = Inr (decision_synthesis res)
              \<and> coordination_protocol res = ?P
              \<and> confidence_metrics res = calculate_confidence_metrics analyses"
    if ok: "engine_ok st (intelligence_engine net)" and ne: "opts \<noteq> []"
  proof -
    from ccw_result[OF ok, of ?d] obtain W st' where
      c: "calculate_context_weights st (intelligence_engine net) ?d = (Inr W, st')"
         "W = (if impact_scale ?d = ''global'' then global_weights else initialize_domain_weights)" by blast
    have "options ?d \<noteq> []" using ne by simp
    from stub_synthesis_some[OF this ccw_weights_cover(1)[OF c(2)]] obtain syn where
      s: "perform_synthesis ?A W = Inr syn" by blast
    let ?res = "\<lparr>decision_synthesis = syn,
                 coordination_protocol = ?P,
                 confidence_metrics = calculate_confidence_metrics ?A\<rparr>"
    have "submit_decision st net ctx stk opts k i u = (Inr ?res, st')"
      using c(1) s by (simp add: submit_unfold synthesize_unfold generate_coordination_protocol_def)
    moreover have "analyze_each ?d [] Domain_members = Inr ?A" by (rule analyze_each_stub)
    ultimately show ?thesis using c(1) s
      by (intro exI[of _ ?res] exI[of _ st'] exI[of _ ?A] exI[of _ W]) simp
  qed
  have v: "submit_decision_via synthesize st net ctx stk opts k i u
         = synthesize st (intelligence_engine net) ?d"
    by (rule submit_via_unfold)
  have e: "submit_decision st net ctx stk opts k i u
         = submit_decision_via synthesize_decision st net ctx stk opts k i u"
    by (simp add: submit_decision_def)
  show ?thesis
    unfolding Let_def using pipeline v e by blast
qed

text \<open>Claim C8 at a concrete input.\<close>

theorem submit_decision_builds_decision_witness:
  "engine_ok (snd (GlobalCoordinationNetwork_init initial_store))
             (intelligence_engine (fst (GlobalCoordinationNetwork_init initial_store)))
   \<and> submit_decision_via (\<lambda>st self d. d) (snd (GlobalCoordinationNetwork_init initial_store))
         (fst (GlobalCoordinationNetwork_init initial_store))
         ''choice'' [''alice''] [''A''] (None :: (string \<times> real) list option) None None
       = \<lparr>context_field = ''choice'', stakeholders = [''alice''], options = [''A''],
          constraints = [], timeframe = 30, impact_scale = ''personal'',
          uncertainty_level = 3 / 10\<rparr>
   \<and> (\<exists>res st'. submit_decision (snd (GlobalCoordinationNetwork_init initial_store))
               (fst (GlobalCoordinationNetwork_init initial_store))
               ''choice'' [''alice''] [''A''] (None :: (string \<times> real) list option) None None
             = (Inr res, st')
          \<and> coordination_protocol res =
                  \<lparr>implementation_phases =
                     [[(''phase'', ''foundation''), (''focus'', ''stakeholder_alignment''),
                       (''duration'', ''20%'')],
                      [(''phase'', ''coordination''), (''focus'', ''synchronized_action''),
                       (''duration'', ''60%'')],
                      [(''phase'', ''optimization''), (''focus'', ''continuous_improvement''),
                       (''duration'', ''20%'')]]\<rparr>)"
proof -
  have ok: "engine_ok (snd (GlobalCoordinationNetwork_init initial_store))
             (intelligence_engine (fst (GlobalCoordinationNetwork_init initial_store)))"
    by (simp add: GlobalCoordinationNetwork_init_def UniversalIntelligenceSynthesis_init_def
        new_dict_def engine_ok_def initial_store_def)
  show ?thesis
    using ok submit_decision_builds_decision[where st = "snd (GlobalCoordinationNetwork_init initial_store)"
      and net = "fst (GlobalCoordinationNetwork_init initial_store)"
      and synthesize = "\<lambda>st self d. d"
      and ctx = "''choice''" and stk = "[''alice'']" and opts = "[''A'']"
      and k = "None :: (string \<times> real) list option" and i = None and u = None]
    unfolding Let_def by (simp del: not_Cons_self2) metis
qed

text \<open>
  Claim C9. The ten base weights sum to 1. The constructor stores them under the engine's
  \<^verbatim>\<open>domain_weights\<close> reference; context weighting and \<^verbatim>\<open>submit_decision\<close> leave the
  dictionary under that reference unchanged, because the multiplication by 1.5 is applied to
  the copy, which lives under a new reference.
\<close>

theorem base_weights_sum_and_immutable:
  "sum_list (map snd initialize_domain_weights) = 1
   \<and> engine_ok (snd (UniversalIntelligenceSynthesis_init st0)) (fst (UniversalIntelligenceSynthesis_init st0))
   \<and> (engine_ok st self \<longrightarrow>
        cells (snd (calculate_context_weights st self d)) (domain_weights self) = initialize_domain_weights
        \<and> engine_ok (snd (calculate_context_weights st self d)) self
        \<and> (impact_scale d = ''global'' \<longrightarrow>
             cells (snd (calculate_context_weights st self d)) (next_ref st)
               = dict_set initialize_domain_weights SYSTEMS_THINKING (0.13 * 1.5)))
   \<and> (engine_ok st (intelligence_engine net) \<longrightarrow>
        engine_ok (snd (submit_decision st net ctx stk opts k i u)) (intelligence_engine net))"
proof -
  have a: "engine_ok (snd (calculate_context_weights st self d)) self" if "engine_ok st self"
    using that by (rule ccw_store)
  have b: "engine_ok (snd (submit_decision st net ctx stk opts k i u)) (intelligence_engine net)"
    if "engine_ok st (intelligence_engine net)"
    unfolding submit_unfold using that by (rule synthesize_store_ok)
  show ?thesis
    using base_total init_engine_ok[of st0] a b ccw_copy_cell[of st self d]
    by (auto simp: engine_ok_def)
qed

text \<open>Claim C9 at a concrete input.\<close>

theorem base_weights_sum_and_immutable_witness:
  "engine_ok (snd (UniversalIntelligenceSynthesis_init initial_store))
             (fst (UniversalIntelligenceSynthesis_init initial_store))
   \<and> impact_scale benchmark_decision = ''global''
   \<and> cells (snd (calculate_context_weights (snd (UniversalIntelligenceSynthesis_init initial_store))
               (fst (UniversalIntelligenceSynthesis_init initial_store)) benchmark_decision))
        (domain_weights (fst (UniversalIntelligenceSynthesis_init initial_store)))
       = initialize_domain_weights
   \<and> sum_list (map snd initialize_domain_weights) = 1"
  using base_weights_sum_and_immutable[where ?st0.0 = initial_store
      and st = "snd (UniversalIntelligenceSynthesis_init initial_store)"
      and self = "fst (UniversalIntelligenceSynthesis_init initial_store)"
      and d = benchmark_decision
      and net = "fst (GlobalCoordinationNetwork_init initial_store)"
      and ctx = "''c''" and stk = "[]" and opts = "[]"
      and k = "None :: (string \<times> real) list option" and i = None and u = None]
  by (simp add: benchmark_decision_def)

text \<open>
  Claim C10. For every decision with a non-empty list of options the synthesis returns a
  result whose average confidence and synthesis confidence are 0.85 and whose synthesis
  reliability equals the average confidence: the ten confidences are all 0.85, so their
  population standard deviation is 0.
\<close>

theorem stub_confidence_metrics_constant:
  assumes "engine_ok st self" and "options d \<noteq> []"
  shows "\<exists>res st'. synthesize_decision st self d = (Inr res, st')
           \<and> average_confidence (confidence_metrics res) = 0.85
           \<and> synthesis_confidence (decision_synthesis res) = 0.85
           \<and> synthesis_reliability (confidence_metrics res) = average_confidence (confidence_metrics res)
           \<and> np_std (replicate 10 0.85) = 0"
proof -
  from ccw_result[OF assms(1), of d] obtain W st' where
    c: "calculate_context_weights st self d = (Inr W, st')"
       "W = (if impact_scale d = ''global'' then global_weights else initialize_domain_weights)" by blast
  from stub_synthesis_some[OF assms(2) ccw_weights_cover(1)[OF c(2)]] obtain syn where
    s: "perform_synthesis (map (\<lambda>dm. (dm, game_theory_analysis d)) Domain_members) W = Inr syn"
       "synthesis_confidence syn = 0.85" by blast
  from c(1) s show ?thesis by (simp add: synthesize_unfold stub_metrics std_replicate)
qed

text \<open>Claim C10 at a concrete input.\<close>

theorem stub_confidence_metrics_constant_witness:
  "engine_ok (snd (UniversalIntelligenceSynthesis_init initial_store))
             (fst (UniversalIntelligenceSynthesis_init initial_store))
   \<and> options benchmark_decision \<noteq> []
   \<and> (\<exists>res st'. synthesize_decision (snd (UniversalIntelligenceSynthesis_init initial_store))
                   (fst (UniversalIntelligenceSynthesis_init initial_store)) benchmark_decision = (Inr res, st')
          \<and> average_confidence (confidence_metrics res) = 17 / 20
          \<and> synthesis_reliability (confidence_metrics res) = 17 / 20
          \<and> synthesis_confidence (decision_synthesis res) = 17 / 20)"
proof -
  have ok: "engine_ok (snd (UniversalIntelligenceSynthesis_init initial_store))
             (fst (UniversalIntelligenceSynthesis_init initial_store))"
    by (simp add: UniversalIntelligenceSynthesis_init_def new_dict_def engine_ok_def initial_store_def)
  have ne: "options benchmark_decision \<noteq> []"
    by (simp add: benchmark_decision_def)
  show ?thesis
    using ok ne stub_confidence_metrics_constant[OF ok ne]
    by auto
qed

end
